theory Spec2Isabelle
  imports Complex_Main
begin

section \<open>Python values and built-ins used by the sources\<close>

text \<open>
  Exceptions of the two source files are values of \<open>error\<close>; a function that can raise
  returns \<open>error + 'a\<close> with \<open>Inl\<close> for the exception. \<open>CmdInputError\<close> carries its message,
  the name errors carry the name that could not be resolved.
\<close>

datatype error =
    CmdInputError string
  | ValueError
  | IndexError
  | KeyError string
  | NameError string
  | UnboundLocalError string
  | AttributeError string
  | TypeError

definition bindE :: "error + 'a \<Rightarrow> ('a \<Rightarrow> error + 'b) \<Rightarrow> error + 'b" where
  "bindE m f = (case m of Inl e \<Rightarrow> Inl e | Inr x \<Rightarrow> f x)"

text \<open>
  Strings are lists of code points below 256. \<open>is_space\<close> is \<open>str.isspace\<close> on that range,
  which is what \<open>str.split()\<close> without arguments and the numeric constructors strip.
\<close>

definition is_space :: "char \<Rightarrow> bool" where
  "is_space c = ((of_char c :: nat) \<in> {9, 10, 11, 12, 13, 28, 29, 30, 31, 32, 133, 160})"

fun split_from :: "string \<Rightarrow> string \<Rightarrow> string list" where
  "split_from w [] = (if w = [] then [] else [w])"
| "split_from w (c # cs) =
     (if is_space c then (if w = [] then split_from [] cs else w # split_from [] cs)
      else split_from (w @ [c]) cs)"

definition py_split :: "string \<Rightarrow> string list" where
  "py_split s = split_from [] s"

definition py_strip :: "string \<Rightarrow> string" where
  "py_strip s = rev (dropWhile is_space (rev (dropWhile is_space s)))"

fun py_join :: "string \<Rightarrow> string list \<Rightarrow> string" where
  "py_join sep [] = []"
| "py_join sep [x] = x"
| "py_join sep (x # y # ys) = x @ sep @ py_join sep (y # ys)"

definition lower_char :: "char \<Rightarrow> char" where
  "lower_char c =
     (let k = (of_char c :: nat)
      in if (65 \<le> k \<and> k \<le> 90) \<or> (192 \<le> k \<and> k \<le> 222 \<and> k \<noteq> 215)
         then char_of (k + 32) else c)"

definition py_lower :: "string \<Rightarrow> string" where
  "py_lower s = map lower_char s"

text \<open>
  \<open>int(s)\<close> in base 10: surrounding whitespace is stripped, then an optional sign and
  digits, where single underscores may separate digits. \<open>None\<close> is ValueError.
\<close>

definition is_digit :: "char \<Rightarrow> bool" where
  "is_digit c = (48 \<le> (of_char c :: nat) \<and> (of_char c :: nat) \<le> 57)"

fun digitpart :: "string \<Rightarrow> string option" where
  "digitpart [] = None"
| "digitpart [c] = (if is_digit c then Some [c] else None)"
| "digitpart (c # d # cs) =
     (if \<not> is_digit c then None
      else if d = CHR ''_'' then map_option ((#) c) (digitpart cs)
      else map_option ((#) c) (digitpart (d # cs)))"

definition digits_val :: "string \<Rightarrow> nat" where
  "digits_val ds = foldl (\<lambda>a c. 10 * a + (of_char c - 48)) 0 ds"

definition signed_digits :: "string \<Rightarrow> int option" where
  "signed_digits s =
     (case s of
        [] \<Rightarrow> None
      | c # cs \<Rightarrow>
          if c = CHR ''-'' then map_option (\<lambda>ds. - int (digits_val ds)) (digitpart cs)
          else if c = CHR ''+'' then map_option (\<lambda>ds. int (digits_val ds)) (digitpart cs)
          else map_option (\<lambda>ds. int (digits_val ds)) (digitpart s))"

definition py_int :: "string \<Rightarrow> int option" where
  "py_int s = signed_digits (py_strip s)"

text \<open>
  \<open>float(s)\<close>: an optional sign, then \<open>inf\<close>, \<open>infinity\<close> or \<open>nan\<close> in any case, or a
  decimal number with an optional exponent. A finite result is kept as the rational
  number the decimal text denotes; its rounding to a binary64 value is not part of the
  model, and nothing below depends on it. \<open>None\<close> is ValueError.
\<close>

datatype pyfloat = Finite rat | Infinity bool | NaN

definition scale10 :: "rat \<Rightarrow> int \<Rightarrow> rat" where
  "scale10 q e = (if 0 \<le> e then q * 10 ^ nat e else q / 10 ^ nat (- e))"

definition mantissa :: "string \<Rightarrow> (nat \<times> nat) option" where
  "mantissa m =
     (let ip = takeWhile (\<lambda>c. c \<noteq> CHR ''.'') m;
          fr = dropWhile (\<lambda>c. c \<noteq> CHR ''.'') m
      in if fr = [] then map_option (\<lambda>ds. (digits_val ds, 0)) (digitpart ip)
         else if ip = [] then map_option (\<lambda>fs. (digits_val fs, length fs)) (digitpart (tl fr))
         else if tl fr = [] then map_option (\<lambda>ds. (digits_val ds, 0)) (digitpart ip)
         else (case digitpart ip of
                 None \<Rightarrow> None
               | Some ds \<Rightarrow>
                   map_option (\<lambda>fs. (digits_val (ds @ fs), length fs)) (digitpart (tl fr))))"

definition exponent :: "string \<Rightarrow> int option" where
  "exponent r = (if r = [] then Some 0 else signed_digits (tl r))"

definition floatnumber :: "string \<Rightarrow> rat option" where
  "floatnumber s =
     (let m = takeWhile (\<lambda>c. c \<noteq> CHR ''e'' \<and> c \<noteq> CHR ''E'') s;
          r = dropWhile (\<lambda>c. c \<noteq> CHR ''e'' \<and> c \<noteq> CHR ''E'') s
      in case mantissa m of
           None \<Rightarrow> None
         | Some (v, k) \<Rightarrow> map_option (\<lambda>e. scale10 (of_nat v) (e - int k)) (exponent r))"

definition py_float :: "string \<Rightarrow> pyfloat option" where
  "py_float s =
     (let t = py_strip s;
          neg = (t \<noteq> [] \<and> hd t = CHR ''-'');
          body = (if t \<noteq> [] \<and> (hd t = CHR ''-'' \<or> hd t = CHR ''+'') then tl t else t)
      in if py_lower body = ''inf'' \<or> py_lower body = ''infinity'' then Some (Infinity neg)
         else if py_lower body = ''nan'' then Some NaN
         else map_option (\<lambda>q. Finite (if neg then - q else q)) (floatnumber body))"

definition floatE :: "string \<Rightarrow> error + pyfloat" where
  "floatE s = (case py_float s of None \<Rightarrow> Inl ValueError | Some x \<Rightarrow> Inr x)"

definition intE :: "string \<Rightarrow> error + int" where
  "intE s = (case py_int s of None \<Rightarrow> Inl ValueError | Some k \<Rightarrow> Inr k)"

text \<open>List indexing, slicing and \<open>range\<close> with a positive step, on Python's integers.\<close>

definition py_index :: "'a list \<Rightarrow> int \<Rightarrow> error + 'a" where
  "py_index xs i =
     (let len = int (length xs); j = (if i < 0 then i + len else i)
      in if j < 0 \<or> len \<le> j then Inl IndexError else Inr (xs ! nat j))"

definition clip_index :: "int \<Rightarrow> nat \<Rightarrow> nat" where
  "clip_index i len = (if i < 0 then nat (max 0 (int len + i)) else min (nat i) len)"

definition py_slice :: "'a list \<Rightarrow> int \<Rightarrow> int \<Rightarrow> 'a list" where
  "py_slice xs i j =
     (let a = clip_index i (length xs); b = clip_index j (length xs)
      in take (b - a) (drop a xs))"

definition py_range :: "int \<Rightarrow> int \<Rightarrow> int \<Rightarrow> int list" where
  "py_range start stop step =
     map (\<lambda>k. start + int k * step) [0 ..< nat ((stop - start + step - 1) div step)]"

section \<open>The directive parser (input_cmds_multiuse.py)\<close>

text \<open>
  The classes of \<open>cmds_multiple\<close> are not part of the sources: a scene object is the
  constructor's name with the keyword arguments it was called with, in the order of the
  call. Optional keyword arguments (\<open>start\<close> and \<open>end\<close>, \<open>id\<close> and \<open>outputs\<close>) are an
  option; \<open>Snapshot\<close> is called with either \<open>iterations\<close> or \<open>time\<close>.
\<close>

type_synonym point = "pyfloat \<times> pyfloat \<times> pyfloat"

datatype trigger = Iterations int | Time pyfloat

datatype scene_object =
    Waveform string pyfloat pyfloat string
  | VoltageSource string point pyfloat string "(pyfloat \<times> pyfloat) option"
  | HertzianDipole string point string "(pyfloat \<times> pyfloat) option"
  | MagneticDipole string point string "(pyfloat \<times> pyfloat) option"
  | TransmissionLine string point pyfloat string "(string \<times> string) option"
  | Rx point "(string \<times> string list) option"
  | Snapshot point point point trigger string
  | Material pyfloat pyfloat pyfloat pyfloat string
  | AddDebyeDispersion int "pyfloat list" "pyfloat list" "string list"
  | AddLorentzDispersion int "string list" "pyfloat list" "pyfloat list" "pyfloat list"
  | AddDrudeDispersion int "string list" "pyfloat list" "pyfloat list"
  | SoilPeplinski pyfloat pyfloat pyfloat pyfloat pyfloat pyfloat string
  | GeometryView point point point string string
  | GeometryObjectsWrite point point string
  | PMLCFS string string string string string string string string string string string string

definition quote :: string where
  "quote = [CHR 0x27]"

definition cmd_error :: "string \<Rightarrow> string list \<Rightarrow> string \<Rightarrow> error" where
  "cmd_error cmdname tmp msg =
     CmdInputError (quote @ cmdname @ '': '' @ py_join '' '' tmp @ quote @ msg)"

definition floats3 :: "string \<Rightarrow> string \<Rightarrow> string \<Rightarrow> error + point" where
  "floats3 a b c =
     bindE (floatE a) (\<lambda>x. bindE (floatE b) (\<lambda>y. bindE (floatE c) (\<lambda>z. Inr (x, y, z))))"

text \<open>
  One definition per directive: the body of its \<open>for\<close> loop on the tokens \<open>tmp\<close> of one
  instance, returning the objects that the iteration appends to \<open>scene_objects\<close>.
\<close>

definition waveform_cmd :: "string list \<Rightarrow> error + scene_object list" where
  "waveform_cmd tmp =
     (if length tmp \<noteq> 4
      then Inl (cmd_error ''#waveform'' tmp '' requires exactly four parameters'')
      else bindE (floatE (tmp ! 1)) (\<lambda>amp. bindE (floatE (tmp ! 2)) (\<lambda>freq.
             Inr [Waveform (tmp ! 0) amp freq (tmp ! 3)])))"

definition voltage_source_cmd :: "string list \<Rightarrow> error + scene_object list" where
  "voltage_source_cmd tmp =
     (if length tmp = 6
      then bindE (floats3 (tmp ! 1) (tmp ! 2) (tmp ! 3)) (\<lambda>p1.
           bindE (floatE (tmp ! 4)) (\<lambda>resistance.
             Inr [VoltageSource (py_lower (tmp ! 0)) p1 resistance (tmp ! 5) None]))
      else if length tmp = 8
      then bindE (floats3 (tmp ! 1) (tmp ! 2) (tmp ! 3)) (\<lambda>p1.
           bindE (floatE (tmp ! 4)) (\<lambda>resistance.
           bindE (floatE (tmp ! 6)) (\<lambda>start.
           bindE (floatE (tmp ! 7)) (\<lambda>end.
             Inr [VoltageSource (py_lower (tmp ! 0)) p1 resistance (tmp ! 5)
                    (Some (start, end))]))))
      else Inl (cmd_error ''#voltage_source'' tmp '' requires at least six parameters''))"

definition hertzian_dipole_cmd :: "string list \<Rightarrow> error + scene_object list" where
  "hertzian_dipole_cmd tmp =
     (if length tmp < 5
      then Inl (cmd_error ''#hertzian_dipole'' tmp '' requires at least five parameters'')
      else if length tmp = 5
      then bindE (floats3 (tmp ! 1) (tmp ! 2) (tmp ! 3)) (\<lambda>p1.
             Inr [HertzianDipole (tmp ! 0) p1 (tmp ! 4) None])
      else if length tmp = 7
      then bindE (floats3 (tmp ! 1) (tmp ! 2) (tmp ! 3)) (\<lambda>p1.
           bindE (floatE (tmp ! 5)) (\<lambda>start.
           bindE (floatE (tmp ! 6)) (\<lambda>end.
             Inr [HertzianDipole (tmp ! 0) p1 (tmp ! 4) (Some (start, end))])))
      else Inl (cmd_error ''#hertzian_dipole'' tmp '' too many parameters''))"

definition magnetic_dipole_cmd :: "string list \<Rightarrow> error + scene_object list" where
  "magnetic_dipole_cmd tmp =
     (if length tmp < 5
      then Inl (cmd_error ''#magnetic_dipole'' tmp '' requires at least five parameters'')
      else if length tmp = 5
      then bindE (floats3 (tmp ! 1) (tmp ! 2) (tmp ! 3)) (\<lambda>p1.
             Inr [MagneticDipole (tmp ! 0) p1 (tmp ! 4) None])
      else if length tmp = 7
      then bindE (floats3 (tmp ! 1) (tmp ! 2) (tmp ! 3)) (\<lambda>p1.
           bindE (floatE (tmp ! 5)) (\<lambda>start.
           bindE (floatE (tmp ! 6)) (\<lambda>end.
             Inr [MagneticDipole (tmp ! 0) p1 (tmp ! 4) (Some (start, end))])))
      else Inl (cmd_error ''#magnetic_dipole'' tmp '' too many parameters''))"

text \<open>The eight-token transmission line passes \<open>start\<close> and \<open>end\<close> on as strings.\<close>

definition transmission_line_cmd :: "string list \<Rightarrow> error + scene_object list" where
  "transmission_line_cmd tmp =
     (if length tmp < 6
      then Inl (cmd_error ''#transmission_line'' tmp '' requires at least six parameters'')
      else if length tmp = 6
      then bindE (floats3 (tmp ! 1) (tmp ! 2) (tmp ! 3)) (\<lambda>p1.
           bindE (floatE (tmp ! 4)) (\<lambda>resistance.
             Inr [TransmissionLine (tmp ! 0) p1 resistance (tmp ! 5) None]))
      else if length tmp = 8
      then bindE (floats3 (tmp ! 1) (tmp ! 2) (tmp ! 3)) (\<lambda>p1.
           bindE (floatE (tmp ! 4)) (\<lambda>resistance.
             Inr [TransmissionLine (tmp ! 0) p1 resistance (tmp ! 5)
                    (Some (tmp ! 6, tmp ! 7))]))
      else Inl (cmd_error ''#transmission_line'' tmp '' too many parameters''))"

definition rx_cmd :: "string list \<Rightarrow> error + scene_object list" where
  "rx_cmd tmp =
     (if length tmp \<noteq> 3 \<and> length tmp < 5
      then Inl (cmd_error ''#rx'' tmp '' has an incorrect number of parameters'')
      else if length tmp = 3
      then bindE (floats3 (tmp ! 0) (tmp ! 1) (tmp ! 2)) (\<lambda>p1. Inr [Rx p1 None])
      else bindE (floats3 (tmp ! 0) (tmp ! 1) (tmp ! 2)) (\<lambda>p1.
             Inr [Rx p1 (Some (tmp ! 3, py_slice tmp 4 (int (length tmp))))]))"

text \<open>
  \<open>RxArray\<close> is not among the names the module imports, so the call at the end of the
  receiver-array body raises NameError once the nine conversions have succeeded.
\<close>

definition rx_array_cmd :: "string list \<Rightarrow> error + scene_object list" where
  "rx_array_cmd tmp =
     (if length tmp \<noteq> 9
      then Inl (cmd_error ''#rx_array'' tmp '' requires exactly nine parameters'')
      else bindE (floats3 (tmp ! 0) (tmp ! 1) (tmp ! 2)) (\<lambda>p1.
           bindE (floats3 (tmp ! 3) (tmp ! 4) (tmp ! 5)) (\<lambda>p2.
           bindE (floats3 (tmp ! 6) (tmp ! 7) (tmp ! 8)) (\<lambda>dl.
             Inl (NameError ''RxArray'')))))"

text \<open>
  The snapshot body tries \<open>int(tmp[9])\<close>; its ValueError is caught and \<open>float(tmp[9])\<close>
  is tried in the handler, whose own ValueError is not caught.
\<close>

definition snapshot_cmd :: "string list \<Rightarrow> error + scene_object list" where
  "snapshot_cmd tmp =
     (if length tmp \<noteq> 11
      then Inl (cmd_error ''#snapshot'' tmp '' requires exactly eleven parameters'')
      else bindE (floats3 (tmp ! 0) (tmp ! 1) (tmp ! 2)) (\<lambda>p1.
           bindE (floats3 (tmp ! 3) (tmp ! 4) (tmp ! 5)) (\<lambda>p2.
           bindE (floats3 (tmp ! 6) (tmp ! 7) (tmp ! 8)) (\<lambda>dl.
             let filename = tmp ! 10
             in case py_int (tmp ! 9) of
                  Some iterations \<Rightarrow> Inr [Snapshot p1 p2 dl (Iterations iterations) filename]
                | None \<Rightarrow>
                    bindE (floatE (tmp ! 9)) (\<lambda>time.
                      Inr [Snapshot p1 p2 dl (Time time) filename])))))"

definition material_cmd :: "string list \<Rightarrow> error + scene_object list" where
  "material_cmd tmp =
     (if length tmp \<noteq> 5
      then Inl (cmd_error ''#material'' tmp '' requires exactly five parameters'')
      else bindE (floatE (tmp ! 0)) (\<lambda>er. bindE (floatE (tmp ! 1)) (\<lambda>se.
           bindE (floatE (tmp ! 2)) (\<lambda>mr. bindE (floatE (tmp ! 3)) (\<lambda>sm.
             Inr [Material er se mr sm (tmp ! 4)])))))"

text \<open>
  The pole loops of the dispersion directives: \<open>poles\<close> is the list that \<open>range\<close> yields,
  the accumulators are the lists the loop appends to. \<open>float_at tmp i\<close> is
  \<open>float(tmp[i])\<close>: the element is read first, so an index out of range is an
  IndexError, and a token that is no number a ValueError.
\<close>

definition float_at :: "string list \<Rightarrow> int \<Rightarrow> error + pyfloat" where
  "float_at tmp i = bindE (py_index tmp i) floatE"

fun debye_poles ::
  "string list \<Rightarrow> int list \<Rightarrow> pyfloat list \<Rightarrow> pyfloat list \<Rightarrow> error + pyfloat list \<times> pyfloat list"
where
  "debye_poles tmp [] er_delta tau = Inr (er_delta, tau)"
| "debye_poles tmp (pole # poles) er_delta tau =
     bindE (float_at tmp pole) (\<lambda>a.
     bindE (float_at tmp (pole + 1)) (\<lambda>b.
       debye_poles tmp poles (er_delta @ [a]) (tau @ [b])))"

definition add_dispersion_debye_cmd :: "string list \<Rightarrow> error + scene_object list" where
  "add_dispersion_debye_cmd tmp =
     (if length tmp < 4
      then Inl (cmd_error ''#add_dispersion_debye'' tmp '' requires at least four parameters'')
      else bindE (intE (tmp ! 0)) (\<lambda>poles.
           let material_ids = py_slice tmp ((2 * poles) + 1) (int (length tmp))
           in bindE (debye_poles tmp (py_range 1 (2 * poles) 2) [] []) (\<lambda>(er_delta, tau).
                Inr [AddDebyeDispersion poles er_delta tau material_ids])))"

fun lorentz_poles ::
  "string list \<Rightarrow> int list \<Rightarrow> pyfloat list \<Rightarrow> pyfloat list \<Rightarrow> pyfloat list
     \<Rightarrow> error + pyfloat list \<times> pyfloat list \<times> pyfloat list"
where
  "lorentz_poles tmp [] er_delta tau alpha = Inr (er_delta, tau, alpha)"
| "lorentz_poles tmp (pole # poles) er_delta tau alpha =
     bindE (float_at tmp pole) (\<lambda>a.
     bindE (float_at tmp (pole + 1)) (\<lambda>b.
     bindE (float_at tmp (pole + 2)) (\<lambda>c.
       lorentz_poles tmp poles (er_delta @ [a]) (tau @ [b]) (alpha @ [c]))))"

definition add_dispersion_lorentz_cmd :: "string list \<Rightarrow> error + scene_object list" where
  "add_dispersion_lorentz_cmd tmp =
     (if length tmp < 5
      then Inl (cmd_error ''#add_dispersion_lorentz'' tmp '' requires at least five parameters'')
      else bindE (intE (tmp ! 0)) (\<lambda>poles.
           let material_ids = py_slice tmp ((3 * poles) + 1) (int (length tmp))
           in bindE (lorentz_poles tmp (py_range 1 (3 * poles) 3) [] [] [])
                (\<lambda>(er_delta, tau, alpha).
                   Inr [AddLorentzDispersion poles material_ids er_delta tau alpha])))"

fun drude_poles ::
  "string list \<Rightarrow> int list \<Rightarrow> pyfloat list \<Rightarrow> pyfloat list \<Rightarrow> error + pyfloat list \<times> pyfloat list"
where
  "drude_poles tmp [] tau alpha = Inr (tau, alpha)"
| "drude_poles tmp (pole # poles) tau alpha =
     bindE (float_at tmp pole) (\<lambda>a.
     bindE (float_at tmp (pole + 1)) (\<lambda>b.
       drude_poles tmp poles (tau @ [a]) (alpha @ [b])))"

text \<open>The Drude body slices the material ids from \<open>3 * poles + 1\<close>, as the source has it.\<close>

definition add_dispersion_drude_cmd :: "string list \<Rightarrow> error + scene_object list" where
  "add_dispersion_drude_cmd tmp =
     (if length tmp < 5
      then Inl (cmd_error ''#add_dispersion_drude'' tmp '' requires at least five parameters'')
      else bindE (intE (tmp ! 0)) (\<lambda>poles.
           let material_ids = py_slice tmp ((3 * poles) + 1) (int (length tmp))
           in bindE (drude_poles tmp (py_range 1 (2 * poles) 2) [] []) (\<lambda>(tau, alpha).
                Inr [AddDrudeDispersion poles material_ids tau alpha])))"

definition soil_peplinski_cmd :: "string list \<Rightarrow> error + scene_object list" where
  "soil_peplinski_cmd tmp =
     (if length tmp \<noteq> 7
      then Inl (cmd_error ''#soil_peplinski'' tmp '' requires at exactly seven parameters'')
      else bindE (floatE (tmp ! 0)) (\<lambda>sand_fraction.
           bindE (floatE (tmp ! 1)) (\<lambda>clay_fraction.
           bindE (floatE (tmp ! 2)) (\<lambda>bulk_density.
           bindE (floatE (tmp ! 3)) (\<lambda>sand_density.
           bindE (floatE (tmp ! 4)) (\<lambda>water_fraction_lower.
           bindE (floatE (tmp ! 5)) (\<lambda>water_fraction_upper.
             Inr [SoilPeplinski sand_fraction clay_fraction bulk_density sand_density
                    water_fraction_lower water_fraction_upper (tmp ! 6)])))))))"

definition geometry_view_cmd :: "string list \<Rightarrow> error + scene_object list" where
  "geometry_view_cmd tmp =
     (if length tmp \<noteq> 11
      then Inl (cmd_error ''#geometry_view'' tmp '' requires exactly eleven parameters'')
      else bindE (floats3 (tmp ! 0) (tmp ! 1) (tmp ! 2)) (\<lambda>p1.
           bindE (floats3 (tmp ! 3) (tmp ! 4) (tmp ! 5)) (\<lambda>p2.
           bindE (floats3 (tmp ! 6) (tmp ! 7) (tmp ! 8)) (\<lambda>dl.
             Inr [GeometryView p1 p2 dl (tmp ! 9) (tmp ! 10)]))))"

text \<open>
  In the geometry-objects body the four statements that build and append the object are
  indented under the \<open>if\<close>, after its \<open>raise\<close>: they never run, and an instance of seven
  tokens leaves \<open>scene_objects\<close> as it was.
\<close>

definition geometry_objects_write_cmd :: "string list \<Rightarrow> error + scene_object list" where
  "geometry_objects_write_cmd tmp =
     (if length tmp \<noteq> 7
      then Inl (cmd_error ''#geometry_objects_write'' tmp '' requires exactly seven parameters'')
      else Inr [])"

definition pml_cfs_cmd :: "string list \<Rightarrow> error + scene_object list" where
  "pml_cfs_cmd tmp =
     (if length tmp \<noteq> 12
      then Inl (cmd_error ''#pml_cfs'' tmp '' requires exactly twelve parameters'')
      else Inr [PMLCFS (tmp ! 0) (tmp ! 1) (tmp ! 2) (tmp ! 3) (tmp ! 4) (tmp ! 5)
                  (tmp ! 6) (tmp ! 7) (tmp ! 8) (tmp ! 9) (tmp ! 10) (tmp ! 11)])"

text \<open>
  The local state of \<open>process_multicmds\<close>: the list built so far, and \<open>tmp\<close>, which is
  unbound until some loop body has run and afterwards holds the tokens of the instance
  split last. The dictionary maps a name to \<open>None\<close> or to its instances; a name that is
  no key of it gives KeyError.
\<close>

record locals =
  scene_objects :: "scene_object list"
  tmp_var :: "string list option"

type_synonym multicmds = "string \<Rightarrow> string list option option"

fun for_cmdinstance ::
  "(string list \<Rightarrow> error + scene_object list) \<Rightarrow> string list \<Rightarrow> locals \<Rightarrow> error + locals"
where
  "for_cmdinstance body [] st = Inr st"
| "for_cmdinstance body (cmdinstance # rest) st =
     (let tmp = py_split cmdinstance
      in bindE (body tmp) (\<lambda>new.
           for_cmdinstance body rest
             \<lparr>scene_objects = scene_objects st @ new, tmp_var = Some tmp\<rparr>))"

definition cmd_block ::
  "string \<Rightarrow> (string list \<Rightarrow> error + scene_object list) \<Rightarrow> multicmds \<Rightarrow> locals \<Rightarrow> error + locals"
where
  "cmd_block cmdname body multicmds st =
     (case multicmds cmdname of
        None \<Rightarrow> Inl (KeyError cmdname)
      | Some None \<Rightarrow> Inr st
      | Some (Some instances) \<Rightarrow> for_cmdinstance body instances st)"

text \<open>
  The message of the PML check joins \<open>tmp\<close> before any instance of \<open>#pml_cfs\<close> has been
  split: it reads the tokens an earlier directive left, or fails with UnboundLocalError
  when no loop body has run.
\<close>

definition pml_cfs_block :: "multicmds \<Rightarrow> locals \<Rightarrow> error + locals" where
  "pml_cfs_block multicmds st =
     (case multicmds ''#pml_cfs'' of
        None \<Rightarrow> Inl (KeyError ''#pml_cfs'')
      | Some None \<Rightarrow> Inr st
      | Some (Some instances) \<Rightarrow>
          if length instances > 2
          then (case tmp_var st of
                  None \<Rightarrow> Inl (UnboundLocalError ''tmp'')
                | Some tmp \<Rightarrow>
                    Inl (cmd_error ''#pml_cfs'' tmp
                      '' can only be used up to two times, for up to a 2nd order PML''))
          else for_cmdinstance pml_cfs_cmd instances st)"

definition process_multicmds :: "multicmds \<Rightarrow> error + scene_object list" where
  "process_multicmds multicmds =
     bindE (cmd_block ''#waveform'' waveform_cmd multicmds
              \<lparr>scene_objects = [], tmp_var = None\<rparr>) (\<lambda>st.
     bindE (cmd_block ''#voltage_source'' voltage_source_cmd multicmds st) (\<lambda>st.
     bindE (cmd_block ''#hertzian_dipole'' hertzian_dipole_cmd multicmds st) (\<lambda>st.
     bindE (cmd_block ''#magnetic_dipole'' magnetic_dipole_cmd multicmds st) (\<lambda>st.
     bindE (cmd_block ''#transmission_line'' transmission_line_cmd multicmds st) (\<lambda>st.
     bindE (cmd_block ''#rx'' rx_cmd multicmds st) (\<lambda>st.
     bindE (cmd_block ''#rx_array'' rx_array_cmd multicmds st) (\<lambda>st.
     bindE (cmd_block ''#snapshot'' snapshot_cmd multicmds st) (\<lambda>st.
     bindE (cmd_block ''#material'' material_cmd multicmds st) (\<lambda>st.
     bindE (cmd_block ''#add_dispersion_debye'' add_dispersion_debye_cmd multicmds st) (\<lambda>st.
     bindE (cmd_block ''#add_dispersion_lorentz'' add_dispersion_lorentz_cmd multicmds st) (\<lambda>st.
     bindE (cmd_block ''#add_dispersion_drude'' add_dispersion_drude_cmd multicmds st) (\<lambda>st.
     bindE (cmd_block ''#soil_peplinski'' soil_peplinski_cmd multicmds st) (\<lambda>st.
     bindE (cmd_block ''#geometry_view'' geometry_view_cmd multicmds st) (\<lambda>st.
     bindE (cmd_block ''#geometry_objects_write'' geometry_objects_write_cmd multicmds st) (\<lambda>st.
     bindE (pml_cfs_block multicmds st) (\<lambda>st.
       Inr (scene_objects st)))))))))))))))))"

section \<open>The configuration module (config.py)\<close>

subsection \<open>Data types\<close>








subsection \<open>Simulation configuration\<close>

text \<open>
  The run arguments read by the resolver. \<open>task\<close> and \<open>restart\<close> are \<open>None\<close> or an
  integer; \<open>outputfile\<close> and \<open>subgrid\<close> may be missing from the namespace altogether
  (outer \<open>None\<close>); \<open>mpi\<close> and \<open>mpi_no_spawn\<close> stand for the truth value of the argument.
  \<open>gpu\<close> and \<open>scenes\<close> are only copied and are left out.
\<close>

record args =
  n :: int
  inputfile :: "string option"
  outputfile :: "string option option"
  task :: "int option"
  restart :: "int option"
  mpi :: bool
  mpi_no_spawn :: bool
  geometry_fixed :: bool
  geometry_only :: bool
  write_processed :: bool
  subgrid :: "bool option"

datatype path = Path string

record sim_config =
  n_models :: int
  geometry_fixed_cfg :: bool
  geometry_only_cfg :: bool
  write_processed_cfg :: bool
  subgrid_cfg :: bool
  input_file_path :: path
  output_file_path :: path
  model_start :: int
  model_end :: int
  single_model :: bool

text \<open>The truth value of an optional integer in a condition: \<open>None\<close> and 0 are false.\<close>

definition truthy :: "int option \<Rightarrow> bool" where
  "truthy v = (case v of None \<Rightarrow> False | Some k \<Rightarrow> k \<noteq> 0)"

definition set_input_file_path :: "args \<Rightarrow> error + path" where
  "set_input_file_path a =
     (case inputfile a of
        None \<Rightarrow>
          (case outputfile a of
             None \<Rightarrow> Inl (AttributeError ''outputfile'')
           | Some None \<Rightarrow> Inl TypeError
           | Some (Some s) \<Rightarrow> Inr (Path s))
      | Some s \<Rightarrow> Inr (Path s))"

definition set_output_file_path :: "args \<Rightarrow> error + path" where
  "set_output_file_path a =
     (case outputfile a of
        Some (Some s) \<Rightarrow> Inr (Path s)
      | Some None \<Rightarrow> Inl TypeError
      | None \<Rightarrow> (case inputfile a of None \<Rightarrow> Inl TypeError | Some s \<Rightarrow> Inr (Path s)))"

definition set_model_start_end :: "args \<Rightarrow> int \<times> int" where
  "set_model_start_end a =
     (if truthy (task a)
      then (the (task a) - 1, the (task a))
      else if truthy (restart a)
      then (let modelstart = the (restart a) - 1 in (modelstart, modelstart + n a - 1))
      else (let modelstart = 0 in (modelstart, modelstart + n a)))"

definition set_single_model :: "int \<Rightarrow> int \<Rightarrow> bool" where
  "set_single_model start e = (if start = 0 \<and> e = 1 then True else False)"

definition SimulationConfig :: "args \<Rightarrow> error + sim_config" where
  "SimulationConfig a =
     bindE (set_input_file_path a) (\<lambda>ip.
     bindE (set_output_file_path a) (\<lambda>op.
       let (ms, me) = set_model_start_end a
       in Inr \<lparr>n_models = n a,
               geometry_fixed_cfg = geometry_fixed a,
               geometry_only_cfg = geometry_only a,
               write_processed_cfg = write_processed a,
               subgrid_cfg = (case subgrid a of None \<Rightarrow> False | Some b \<Rightarrow> b),
               input_file_path = ip,
               output_file_path = op,
               model_start = ms,
               model_end = me,
               single_model = set_single_model ms me\<rparr>))"

text \<open>
  The MPI class overrides \<open>set_model_start_end\<close>: it assigns \<open>model_start\<close> and then reads
  \<open>self.modelstart\<close>, an attribute that no statement of either class assigns.
\<close>

definition set_model_start_end_MPI :: "args \<Rightarrow> error + int \<times> int" where
  "set_model_start_end_MPI a =
     (let ms = (if truthy (restart a) then the (restart a) else 1)
      in Inl (AttributeError ''modelstart''))"

definition SimulationConfigMPI :: "args \<Rightarrow> error + sim_config" where
  "SimulationConfigMPI a =
     bindE (set_input_file_path a) (\<lambda>ip.
     bindE (set_output_file_path a) (\<lambda>op.
     bindE (set_model_start_end_MPI a) (\<lambda>(ms, me).
       Inr \<lparr>n_models = n a,
            geometry_fixed_cfg = geometry_fixed a,
            geometry_only_cfg = geometry_only a,
            write_processed_cfg = write_processed a,
            subgrid_cfg = (case subgrid a of None \<Rightarrow> False | Some b \<Rightarrow> b),
            input_file_path = ip,
            output_file_path = op,
            model_start = ms,
            model_end = me,
            single_model = set_single_model ms me\<rparr>)))"

definition create_simulation_config :: "args \<Rightarrow> error + sim_config" where
  "create_simulation_config a =
     (if \<not> mpi a \<and> \<not> mpi_no_spawn a then SimulationConfig a
      else if mpi a then SimulationConfigMPI a
      else Inl (UnboundLocalError ''sc''))"

text \<open>The index range and the single-model flag of a resolver's result.\<close>

definition resolved_range :: "error + sim_config \<Rightarrow> error + int \<times> int \<times> bool" where
  "resolved_range r = map_sum id (\<lambda>sc. (model_start sc, model_end sc, single_model sc)) r"

section \<open>Example inputs\<close>

text \<open>A dictionary with every directive name mapped to \<open>None\<close>, and one with no key.\<close>

definition cmdnames :: "string list" where
  "cmdnames =
     [''#waveform'', ''#voltage_source'', ''#hertzian_dipole'', ''#magnetic_dipole'',
      ''#transmission_line'', ''#rx'', ''#rx_array'', ''#snapshot'', ''#material'',
      ''#add_dispersion_debye'', ''#add_dispersion_lorentz'', ''#add_dispersion_drude'',
      ''#soil_peplinski'', ''#geometry_view'', ''#geometry_objects_write'', ''#pml_cfs'']"

definition unused_cmds :: multicmds where
  "unused_cmds = map_of (map (\<lambda>k. (k, None)) cmdnames)"

definition no_keys :: multicmds where
  "no_keys = map_of []"

definition pml_line :: string where
  "pml_line = ''constant forward 0 0 constant forward 1 1 quartic forward 0 None''"

definition std_args :: args where
  "std_args =
     \<lparr>n = 1, inputfile = Some ''model.in'', outputfile = None, task = None, restart = None,
      mpi = False, mpi_no_spawn = False, geometry_fixed = False, geometry_only = False,
      write_processed = False, subgrid = None\<rparr>"

section \<open>Properties of the directive parser\<close>

subsection \<open>Sequencing and the pole loops\<close>

lemma bindE_Inr_iff: "bindE m f = Inr y \<longleftrightarrow> (\<exists>x. m = Inr x \<and> f x = Inr y)"
  by (cases m) (simp_all add: bindE_def)

lemma bindE_Inl_iff:
  "bindE m f = Inl e \<longleftrightarrow> m = Inl e \<or> (\<exists>x. m = Inr x \<and> f x = Inl e)"
  by (cases m) (simp_all add: bindE_def)

lemma float_at_Inl: "float_at tmp i = Inl e \<Longrightarrow> e = IndexError \<or> e = ValueError"
  by (auto simp: float_at_def bindE_Inl_iff py_index_def floatE_def Let_def
      split: if_splits option.splits)

lemma float_at_Inr: "float_at tmp i = Inr x \<Longrightarrow> 0 \<le> i \<Longrightarrow> i < int (length tmp)"
  by (auto simp: float_at_def bindE_Inr_iff py_index_def Let_def split: if_splits)

lemma debye_poles_Inl:
  "debye_poles tmp ps er tau = Inl e \<Longrightarrow> e = IndexError \<or> e = ValueError"
proof (induction ps arbitrary: er tau)
  case Nil
  then show ?case by simp
next
  case (Cons p ps)
  from Cons.prems show ?case
    by (auto simp: bindE_Inl_iff dest: float_at_Inl Cons.IH)
qed

lemma debye_poles_Inr:
  "debye_poles tmp ps er tau = Inr r \<Longrightarrow> p \<in> set ps \<Longrightarrow> 0 \<le> p \<Longrightarrow> p + 1 < int (length tmp)"
proof (induction ps arbitrary: er tau)
  case Nil
  then show ?case by simp
next
  case (Cons q ps)
  from Cons.prems(1) obtain a b where
    b: "float_at tmp (q + 1) = Inr b"
    and rest: "debye_poles tmp ps (er @ [a]) (tau @ [b]) = Inr r"
    by (auto simp: bindE_Inr_iff)
  show ?case
  proof (cases "p = q")
    case True
    with b Cons.prems(3) show ?thesis by (auto dest: float_at_Inr)
  next
    case False
    with Cons.prems(2) have "p \<in> set ps" by simp
    from Cons.IH [OF rest this Cons.prems(3)] show ?thesis .
  qed
qed

lemma drude_poles_Inl:
  "drude_poles tmp ps tau al = Inl e \<Longrightarrow> e = IndexError \<or> e = ValueError"
proof (induction ps arbitrary: tau al)
  case Nil
  then show ?case by simp
next
  case (Cons p ps)
  from Cons.prems show ?case
    by (auto simp: bindE_Inl_iff dest: float_at_Inl Cons.IH)
qed

lemma drude_poles_Inr:
  "drude_poles tmp ps tau al = Inr r \<Longrightarrow> p \<in> set ps \<Longrightarrow> 0 \<le> p \<Longrightarrow> p + 1 < int (length tmp)"
proof (induction ps arbitrary: tau al)
  case Nil
  then show ?case by simp
next
  case (Cons q ps)
  from Cons.prems(1) obtain a b where
    b: "float_at tmp (q + 1) = Inr b"
    and rest: "drude_poles tmp ps (tau @ [a]) (al @ [b]) = Inr r"
    by (auto simp: bindE_Inr_iff)
  show ?case
  proof (cases "p = q")
    case True
    with b Cons.prems(3) show ?thesis by (auto dest: float_at_Inr)
  next
    case False
    with Cons.prems(2) have "p \<in> set ps" by simp
    from Cons.IH [OF rest this Cons.prems(3)] show ?thesis .
  qed
qed

lemma lorentz_poles_Inl:
  "lorentz_poles tmp ps er tau al = Inl e \<Longrightarrow> e = IndexError \<or> e = ValueError"
proof (induction ps arbitrary: er tau al)
  case Nil
  then show ?case by simp
next
  case (Cons p ps)
  from Cons.prems show ?case
    by (auto simp: bindE_Inl_iff dest: float_at_Inl Cons.IH)
qed

lemma lorentz_poles_Inr:
  "lorentz_poles tmp ps er tau al = Inr r \<Longrightarrow> p \<in> set ps \<Longrightarrow> 0 \<le> p
     \<Longrightarrow> p + 2 < int (length tmp)"
proof (induction ps arbitrary: er tau al)
  case Nil
  then show ?case by simp
next
  case (Cons q ps)
  from Cons.prems(1) obtain a b c where
    c: "float_at tmp (q + 2) = Inr c"
    and rest: "lorentz_poles tmp ps (er @ [a]) (tau @ [b]) (al @ [c]) = Inr r"
    by (auto simp: bindE_Inr_iff)
  show ?case
  proof (cases "p = q")
    case True
    with c Cons.prems(3) show ?thesis by (auto dest: float_at_Inr)
  next
    case False
    with Cons.prems(2) have "p \<in> set ps" by simp
    from Cons.IH [OF rest this Cons.prems(3)] show ?thesis .
  qed
qed

lemma py_range_mem:
  "0 < step \<Longrightarrow> k < nat ((stop - start + step - 1) div step)
     \<Longrightarrow> start + int k * step \<in> set (py_range start stop step)"
  unfolding py_range_def by auto

lemma range_last2: "1 \<le> P \<Longrightarrow> 2 * P - 1 \<in> set (py_range 1 (2 * P) 2)"
  using py_range_mem [of 2 "nat (P - 1)" "2 * P" 1] by (simp add: mult.commute)

lemma range_last3: "1 \<le> P \<Longrightarrow> 3 * P - 2 \<in> set (py_range 1 (3 * P) 3)"
  using py_range_mem [of 3 "nat (P - 1)" "3 * P" 1] by (simp add: mult.commute)

lemma debye_short:
  assumes P: "py_int (tmp ! 0) = Some P" and lo: "4 \<le> length tmp"
    and hi: "int (length tmp) < 2 * P + 1"
  shows "add_dispersion_debye_cmd tmp = Inl IndexError
       \<or> add_dispersion_debye_cmd tmp = Inl ValueError"
proof (cases "debye_poles tmp (py_range 1 (2 * P) 2) [] []")
  case (Inl e)
  with P lo debye_poles_Inl [OF Inl] show ?thesis
    by (auto simp: add_dispersion_debye_cmd_def intE_def bindE_def)
next
  case (Inr r)
  from lo hi have "1 \<le> P" by simp
  from debye_poles_Inr [OF Inr range_last2 [OF this]] this hi show ?thesis by simp
qed

lemma lorentz_short:
  assumes P: "py_int (tmp ! 0) = Some P" and lo: "5 \<le> length tmp"
    and hi: "int (length tmp) < 3 * P + 1"
  shows "add_dispersion_lorentz_cmd tmp = Inl IndexError
       \<or> add_dispersion_lorentz_cmd tmp = Inl ValueError"
proof (cases "lorentz_poles tmp (py_range 1 (3 * P) 3) [] [] []")
  case (Inl e)
  with P lo lorentz_poles_Inl [OF Inl] show ?thesis
    by (auto simp: add_dispersion_lorentz_cmd_def intE_def bindE_def)
next
  case (Inr r)
  from lo hi have "1 \<le> P" by simp
  from lorentz_poles_Inr [OF Inr range_last3 [OF this]] this hi show ?thesis by simp
qed

lemma drude_short:
  assumes P: "py_int (tmp ! 0) = Some P" and lo: "5 \<le> length tmp"
    and hi: "int (length tmp) < 2 * P + 1"
  shows "add_dispersion_drude_cmd tmp = Inl IndexError
       \<or> add_dispersion_drude_cmd tmp = Inl ValueError"
proof (cases "drude_poles tmp (py_range 1 (2 * P) 2) [] []")
  case (Inl e)
  with P lo drude_poles_Inl [OF Inl] show ?thesis
    by (auto simp: add_dispersion_drude_cmd_def intE_def bindE_def)
next
  case (Inr r)
  from lo hi have "1 \<le> P" by simp
  from drude_poles_Inr [OF Inr range_last2 [OF this]] this hi show ?thesis by simp
qed






subsection \<open>Claims about the parser\<close>

text \<open>
  C1 (the code departs from the claim). A receiver array of nine tokens and a
  geometry-objects instance of seven tokens have a valid token count, yet neither adds
  its descriptor: the first ends in a NameError, the second returns with nothing
  appended.
\<close>

theorem valid_arity_without_descriptor:
  "length (py_split ''0 0 0 1 1 1 geom'') = 7
   \<and> process_multicmds
       (unused_cmds(''#geometry_objects_write'' \<mapsto> Some [''0 0 0 1 1 1 geom''])) = Inr []
   \<and> length (py_split ''0 0 0 1 1 1 0.1 0.1 0.1'') = 9
   \<and> process_multicmds
       (unused_cmds(''#rx_array'' \<mapsto> Some [''0 0 0 1 1 1 0.1 0.1 0.1'']))
     = Inl (NameError ''RxArray'')"
  by code_simp

text \<open>
  C3 (the code departs from the claim). With one pole the Drude body reads the pair from
  tokens 1 and 2 but starts the material ids at token 4, so the id at token 3 is lost;
  the Debye body, on the same tokens, keeps both ids.
\<close>

theorem drude_material_ids_start:
  "add_dispersion_drude_cmd (py_split ''1 0.1 0.2 mat1 mat2'')
     = Inr [AddDrudeDispersion 1 [''mat2''] [Finite (1 / 10)] [Finite (1 / 5)]]
   \<and> add_dispersion_debye_cmd (py_split ''1 0.1 0.2 mat1 mat2'')
     = Inr [AddDebyeDispersion 1 [Finite (1 / 10)] [Finite (1 / 5)] [''mat1'', ''mat2'']]"
  by code_simp



text \<open>
  C7 (the code departs from the claim). Three instances of \<open>#pml_cfs\<close> in a dictionary
  whose other directives are unused end in an UnboundLocalError, not in a
  CmdInputError: the message reads \<open>tmp\<close> before any instance has been split. After a
  waveform the check does raise CmdInputError, with the waveform's tokens in the
  message; two instances of twelve tokens succeed.
\<close>

theorem pml_cfs_third_instance:
  "process_multicmds (unused_cmds(''#pml_cfs'' \<mapsto> Some [pml_line, pml_line, pml_line]))
     = Inl (UnboundLocalError ''tmp'')
   \<and> process_multicmds
       (unused_cmds(''#waveform'' \<mapsto> Some [''gaussian 1 1e9 w1''],
                    ''#pml_cfs'' \<mapsto> Some [pml_line, pml_line, pml_line]))
     = Inl (CmdInputError (quote @ ''#pml_cfs: gaussian 1 1e9 w1'' @ quote
              @ '' can only be used up to two times, for up to a 2nd order PML''))
   \<and> process_multicmds (unused_cmds(''#pml_cfs'' \<mapsto> Some [pml_line, pml_line]))
     = Inr [PMLCFS ''constant'' ''forward'' ''0'' ''0'' ''constant'' ''forward'' ''1'' ''1''
              ''quartic'' ''forward'' ''0'' ''None'',
            PMLCFS ''constant'' ''forward'' ''0'' ''0'' ''constant'' ''forward'' ''1'' ''1''
              ''quartic'' ''forward'' ''0'' ''None'']"
  by code_simp

text \<open>
  C8 (amended). A dispersion instance that has the minimum number of tokens (four for
  Debye, five for Lorentz and Drude) but fewer than the pole count \<open>P\<close> of its first
  token needs (\<open>2P + 1\<close> for Debye and Drude, \<open>3P + 1\<close> for Lorentz) fails, and it fails
  with IndexError or ValueError: no check compares the token count with the pole count,
  so the failure comes from reading a token that is not there, or from converting one
  that is no number.
\<close>

theorem dispersion_short_of_poles:
  assumes "py_int (tmp ! 0) = Some P"
  shows "(4 \<le> length tmp \<and> int (length tmp) < 2 * P + 1 \<longrightarrow>
            add_dispersion_debye_cmd tmp = Inl IndexError
          \<or> add_dispersion_debye_cmd tmp = Inl ValueError)
       \<and> (5 \<le> length tmp \<and> int (length tmp) < 3 * P + 1 \<longrightarrow>
            add_dispersion_lorentz_cmd tmp = Inl IndexError
          \<or> add_dispersion_lorentz_cmd tmp = Inl ValueError)
       \<and> (5 \<le> length tmp \<and> int (length tmp) < 2 * P + 1 \<longrightarrow>
            add_dispersion_drude_cmd tmp = Inl IndexError
          \<or> add_dispersion_drude_cmd tmp = Inl ValueError)"
  using debye_short [OF assms] lorentz_short [OF assms] drude_short [OF assms] by blast

theorem dispersion_short_of_poles_witness:
  "py_int ([''3'', ''1'', ''2'', ''x'', ''4''] ! 0) = Some 3
   \<and> (4::nat) \<le> length [''3'', ''1'', ''2'', ''x'', ''4'']
   \<and> (5::nat) \<le> length [''3'', ''1'', ''2'', ''x'', ''4'']
   \<and> int (length [''3'', ''1'', ''2'', ''x'', ''4'']) < 2 * 3 + 1
   \<and> int (length [''3'', ''1'', ''2'', ''x'', ''4'']) < 3 * 3 + 1
   \<and> (add_dispersion_debye_cmd [''3'', ''1'', ''2'', ''x'', ''4''] = Inl IndexError
      \<or> add_dispersion_debye_cmd [''3'', ''1'', ''2'', ''x'', ''4''] = Inl ValueError)
   \<and> (add_dispersion_lorentz_cmd [''3'', ''1'', ''2'', ''x'', ''4''] = Inl IndexError
      \<or> add_dispersion_lorentz_cmd [''3'', ''1'', ''2'', ''x'', ''4''] = Inl ValueError)
   \<and> (add_dispersion_drude_cmd [''3'', ''1'', ''2'', ''x'', ''4''] = Inl IndexError
      \<or> add_dispersion_drude_cmd [''3'', ''1'', ''2'', ''x'', ''4''] = Inl ValueError)"
proof -
  have P: "py_int ([''3'', ''1'', ''2'', ''x'', ''4''] ! 0) = Some 3" by code_simp
  from dispersion_short_of_poles [OF P] P show ?thesis by simp
qed

theorem dispersion_short_of_poles_counterexample:
  "py_split ''2 0.1 1e-9 0.2'' = [''2'', ''0.1'', ''1e-9'', ''0.2'']
   \<and> py_int ''2'' = Some 2
   \<and> add_dispersion_debye_cmd (py_split ''2 0.1 1e-9 0.2'') = Inl IndexError"
  by code_simp




section \<open>Properties of the configuration module\<close>




text \<open>
  C5 (amended). Whenever the resolver succeeds, \<open>single_model\<close> is true exactly when
  \<open>model_start\<close> is 0 and \<open>model_end\<close> is 1. \<open>model_end > model_start\<close> holds exactly
  when a task index is in effect, or a restart index is in effect and \<open>n\<close> is at least
  2, or neither is in effect and \<open>n\<close> is at least 1: the resolver does not check \<open>n\<close>.
\<close>

theorem resolved_range_invariant:
  assumes "create_simulation_config a = Inr sc"
  shows "(single_model sc \<longleftrightarrow> model_start sc = 0 \<and> model_end sc = 1)
       \<and> (model_start sc < model_end sc \<longleftrightarrow>
            truthy (task a) \<or> (truthy (restart a) \<and> 2 \<le> n a)
            \<or> (\<not> truthy (restart a) \<and> 1 \<le> n a))"
proof -
  have "SimulationConfigMPI a \<noteq> Inr sc"
    by (auto simp: SimulationConfigMPI_def set_model_start_end_MPI_def bindE_Inr_iff)
  with assms have "SimulationConfig a = Inr sc"
    by (auto simp: create_simulation_config_def split: if_splits)
  then obtain ip op where sc: "sc = \<lparr>n_models = n a,
      geometry_fixed_cfg = geometry_fixed a, geometry_only_cfg = geometry_only a,
      write_processed_cfg = write_processed a,
      subgrid_cfg = (case subgrid a of None \<Rightarrow> False | Some b \<Rightarrow> b),
      input_file_path = ip, output_file_path = op,
      model_start = fst (set_model_start_end a), model_end = snd (set_model_start_end a),
      single_model = set_single_model (fst (set_model_start_end a))
        (snd (set_model_start_end a))\<rparr>"
    by (auto simp: SimulationConfig_def bindE_Inr_iff case_prod_beta)
  show ?thesis
    unfolding sc by (auto simp: set_model_start_end_def set_single_model_def Let_def)
qed

theorem resolved_range_invariant_witness:
  "resolved_range (create_simulation_config std_args) = Inr (0, 1, True)
   \<and> resolved_range (create_simulation_config (std_args\<lparr>n := 3\<rparr>)) = Inr (0, 3, False)"
proof -
  have s1: "create_simulation_config std_args
      = Inr \<lparr>n_models = 1, geometry_fixed_cfg = False, geometry_only_cfg = False,
             write_processed_cfg = False, subgrid_cfg = False,
             input_file_path = Path ''model.in'', output_file_path = Path ''model.in'',
             model_start = 0, model_end = 1, single_model = True\<rparr>"
    by code_simp
  have s2: "create_simulation_config (std_args\<lparr>n := 3\<rparr>)
      = Inr \<lparr>n_models = 3, geometry_fixed_cfg = False, geometry_only_cfg = False,
             write_processed_cfg = False, subgrid_cfg = False,
             input_file_path = Path ''model.in'', output_file_path = Path ''model.in'',
             model_start = 0, model_end = 3, single_model = False\<rparr>"
    by code_simp
  from resolved_range_invariant [OF s1] resolved_range_invariant [OF s2] s1 s2
  show ?thesis by (simp add: resolved_range_def)
qed

theorem resolved_range_invariant_counterexample:
  "resolved_range (create_simulation_config (std_args\<lparr>n := 1, restart := Some 2\<rparr>))
     = Inr (1, 1, False)"
  by code_simp

text \<open>
  C6 (the code departs from the claim). The MPI resolver never returns a configuration:
  after the paths are set it reads the attribute \<open>modelstart\<close>, which does not exist. For
  no restart index and \<open>n = 3\<close> the result is that AttributeError, not the range 1 to 4.
\<close>

theorem mpi_resolver_fails:
  "SimulationConfigMPI a \<noteq> Inr sc
   \<and> create_simulation_config (std_args\<lparr>n := 3, mpi := True\<rparr>)
     = Inl (AttributeError ''modelstart'')"
proof -
  have "SimulationConfigMPI a \<noteq> Inr sc"
    by (auto simp: SimulationConfigMPI_def set_model_start_end_MPI_def bindE_Inr_iff)
  moreover have "create_simulation_config (std_args\<lparr>n := 3, mpi := True\<rparr>)
      = Inl (AttributeError ''modelstart'')"
    by code_simp
  ultimately show ?thesis by simp
qed




end
